theory Spec2Isabelle
  imports Complex_Main
begin

section \<open>Numeric values\<close>

text \<open>
  The three functions of the repository compute with numpy floats. A finite float is
  read as the real number it stands for and arithmetic on finite values is exact; the
  special values that the code produces on purpose (\<open>np.Inf\<close>, \<open>-np.Inf\<close>, and the
  not-a-number that arithmetic on them can give) are kept, with the arithmetic that
  numpy performs on them. Rounding, overflow and the sign of zero are not part of the
  model.
\<close>

datatype fl = Fin real | PInf | NInf | NaN

datatype error = ValueError string | IndexError

fun fl_neg :: "fl \<Rightarrow> fl" where
  "fl_neg (Fin a) = Fin (- a)"
| "fl_neg PInf = NInf"
| "fl_neg NInf = PInf"
| "fl_neg NaN = NaN"

fun fl_add :: "fl \<Rightarrow> fl \<Rightarrow> fl" where
  "fl_add (Fin a) (Fin b) = Fin (a + b)"
| "fl_add (Fin a) PInf = PInf"
| "fl_add (Fin a) NInf = NInf"
| "fl_add PInf (Fin b) = PInf"
| "fl_add PInf PInf = PInf"
| "fl_add PInf NInf = NaN"
| "fl_add NInf (Fin b) = NInf"
| "fl_add NInf NInf = NInf"
| "fl_add NInf PInf = NaN"
| "fl_add NaN b = NaN"
| "fl_add a NaN = NaN"

definition fl_sub :: "fl \<Rightarrow> fl \<Rightarrow> fl" where
  "fl_sub a b = fl_add a (fl_neg b)"

fun fl_mul :: "fl \<Rightarrow> fl \<Rightarrow> fl" where
  "fl_mul (Fin a) (Fin b) = Fin (a * b)"
| "fl_mul (Fin a) PInf = (if a = 0 then NaN else if 0 < a then PInf else NInf)"
| "fl_mul (Fin a) NInf = (if a = 0 then NaN else if 0 < a then NInf else PInf)"
| "fl_mul PInf (Fin b) = (if b = 0 then NaN else if 0 < b then PInf else NInf)"
| "fl_mul NInf (Fin b) = (if b = 0 then NaN else if 0 < b then NInf else PInf)"
| "fl_mul PInf PInf = PInf"
| "fl_mul PInf NInf = NInf"
| "fl_mul NInf PInf = NInf"
| "fl_mul NInf NInf = PInf"
| "fl_mul NaN b = NaN"
| "fl_mul a NaN = NaN"

fun fl_div :: "fl \<Rightarrow> fl \<Rightarrow> fl" where
  "fl_div (Fin a) (Fin b) =
     (if b \<noteq> 0 then Fin (a / b)
      else if a = 0 then NaN else if 0 < a then PInf else NInf)"
| "fl_div (Fin a) PInf = Fin 0"
| "fl_div (Fin a) NInf = Fin 0"
| "fl_div PInf (Fin b) = (if 0 \<le> b then PInf else NInf)"
| "fl_div NInf (Fin b) = (if 0 \<le> b then NInf else PInf)"
| "fl_div PInf PInf = NaN"
| "fl_div PInf NInf = NaN"
| "fl_div NInf PInf = NaN"
| "fl_div NInf NInf = NaN"
| "fl_div NaN b = NaN"
| "fl_div a NaN = NaN"

fun fl_exp :: "fl \<Rightarrow> fl" where
  "fl_exp (Fin a) = Fin (exp a)"
| "fl_exp PInf = PInf"
| "fl_exp NInf = Fin 0"
| "fl_exp NaN = NaN"

fun fl_log :: "fl \<Rightarrow> fl" where
  "fl_log (Fin a) = (if 0 < a then Fin (ln a) else if a = 0 then NInf else NaN)"
| "fl_log PInf = PInf"
| "fl_log NInf = NaN"
| "fl_log NaN = NaN"

fun fl_sqrt :: "fl \<Rightarrow> fl" where
  "fl_sqrt (Fin a) = (if 0 \<le> a then Fin (sqrt a) else NaN)"
| "fl_sqrt PInf = PInf"
| "fl_sqrt NInf = NaN"
| "fl_sqrt NaN = NaN"

text \<open>The comparison \<open>a > b\<close>; every comparison with a not-a-number is false.\<close>

fun fl_gt :: "fl \<Rightarrow> fl \<Rightarrow> bool" where
  "fl_gt (Fin a) (Fin b) = (b < a)"
| "fl_gt (Fin a) NInf = True"
| "fl_gt PInf (Fin b) = True"
| "fl_gt PInf NInf = True"
| "fl_gt a b = False"

fun fl_eq :: "fl \<Rightarrow> fl \<Rightarrow> bool" where
  "fl_eq (Fin a) (Fin b) = (a = b)"
| "fl_eq PInf PInf = True"
| "fl_eq NInf NInf = True"
| "fl_eq a b = False"

fun fl_sign :: "fl \<Rightarrow> fl" where
  "fl_sign (Fin a) = Fin (sgn a)"
| "fl_sign PInf = Fin 1"
| "fl_sign NInf = Fin (- 1)"
| "fl_sign NaN = NaN"

text \<open>
  Python's builtin \<open>max\<close> keeps the first element and replaces it by a later one only
  when that one compares greater; the builtin \<open>sum\<close> adds from the left, starting at 0.
  numpy's \<open>sum\<close>, \<open>prod\<close> and \<open>mean\<close> along an axis reduce one row.
\<close>

definition py_max :: "fl \<Rightarrow> fl list \<Rightarrow> fl" where
  "py_max a as = foldl (\<lambda>m v. if fl_gt v m then v else m) a as"

definition py_sum :: "fl list \<Rightarrow> fl" where
  "py_sum as = foldl fl_add (Fin 0) as"

definition np_prod :: "fl list \<Rightarrow> fl" where
  "np_prod as = foldl fl_mul (Fin 1) as"

definition np_mean :: "fl list \<Rightarrow> fl" where
  "np_mean as = fl_div (py_sum as) (Fin (real (length as)))"

text \<open>
  \<open>np.arange(stop)\<close> holds \<open>0, 1, ...\<close> below \<open>stop\<close>, that is
  \<open>\<lceil>stop\<rceil>\<close> values, and raises when \<open>stop\<close> is not finite.
\<close>

fun np_arange :: "fl \<Rightarrow> error + real list" where
  "np_arange (Fin stop) = Inr (map real [0..<nat \<lceil>stop\<rceil>])"
| "np_arange v = Inl (ValueError ''arange: cannot compute length'')"

section \<open>The distributions of scipy.stats\<close>

text \<open>
  \<open>stats.binom.pmf\<close> and \<open>stats.poisson.pmf\<close> are the mass functions of the binomial
  and the Poisson distribution. Outside its support a mass function is 0, and for a
  parameter outside its range scipy gives not-a-number.
\<close>

definition binom_pmf :: "nat \<Rightarrow> nat \<Rightarrow> real \<Rightarrow> fl" where
  "binom_pmf k n p =
     (if 0 \<le> p \<and> p \<le> 1 then Fin (real (n choose k) * p ^ k * (1 - p) ^ (n - k))
      else NaN)"

definition poisson_pmf :: "real \<Rightarrow> real \<Rightarrow> fl" where
  "poisson_pmf l lam =
     (if lam < 0 then NaN
      else if 0 \<le> l \<and> real_of_int \<lfloor>l\<rfloor> = l
        then Fin (lam ^ nat \<lfloor>l\<rfloor> * exp (- lam) / fact (nat \<lfloor>l\<rfloor>))
      else Fin 0)"

section \<open>lab2: harvest\<close>

text \<open>
  The arguments are the number of seeds \<open>n\<close>, a natural number, the growth
  probability \<open>p\<close>, the mean yield \<open>mu\<close> and the optional observed yield
  \<open>y_cond\<close>. Here and in the other two functions an argument with a default
  value is passed explicitly.

  The support bound \<open>Ymax\<close> of the harvested count: mean plus four standard
  deviations, and at least \<open>y_cond\<close> when that is given (\<open>max([Ymax, y_cond])\<close>).
\<close>

definition harvest_Ymax :: "nat \<Rightarrow> real \<Rightarrow> real \<Rightarrow> real option \<Rightarrow> fl" where
  "harvest_Ymax n p mu y_cond =
     (let tot_E = real n * p * mu;
          tot_V = tot_E * (1 + mu * (1 - p));
          Ymax = fl_add (Fin tot_E) (fl_mul (Fin 4) (fl_sqrt (Fin tot_V)))
      in case y_cond of
           None \<Rightarrow> Ymax
         | Some yc \<Rightarrow> py_max Ymax [Fin yc])"

definition harvest_x :: "nat \<Rightarrow> nat list" where
  "harvest_x n = [0..<n + 1]"

definition harvest_y :: "nat \<Rightarrow> real \<Rightarrow> real \<Rightarrow> real option \<Rightarrow> error + real list" where
  "harvest_y n p mu y_cond = np_arange (fl_add (harvest_Ymax n p mu y_cond) (Fin 1))"

text \<open>
  The joint table \<open>pXY\<close> has one row for each harvested count \<open>l\<close> of \<open>y\<close> and one
  column for each grown count \<open>k\<close> of \<open>x\<close> (the layout of \<open>np.meshgrid(x, y)\<close>); the
  marginal \<open>pY\<close> sums each row (\<open>axis=1\<close>).
\<close>

definition harvest_pXY :: "nat \<Rightarrow> real \<Rightarrow> real \<Rightarrow> real list \<Rightarrow> fl list list" where
  "harvest_pXY n p mu y =
     map (\<lambda>l. map (\<lambda>k. fl_mul (binom_pmf k n p) (poisson_pmf l (real k * mu)))
                 (harvest_x n)) y"

definition harvest_pY :: "fl list list \<Rightarrow> fl list" where
  "harvest_pY pXY = map py_sum pXY"

text \<open>
  The conditional vector, in the order of the source: the logarithm of the binomial
  mass minus \<open>x*mu\<close>; \<open>y_cond*log(x*mu)\<close> added from index 1 on; index 0 set to
  \<open>-Inf\<close>; the maximum subtracted and the exponential taken; division by the sum.
  An assignment to index 0 of an empty array raises.
\<close>

definition harvest_pX_Y :: "nat \<Rightarrow> real \<Rightarrow> real \<Rightarrow> real \<Rightarrow> error + fl list" where
  "harvest_pX_Y n p mu y_cond =
     (let x = harvest_x n;
          v1 = map (\<lambda>k. fl_sub (fl_log (binom_pmf k n p)) (Fin (real k * mu))) x;
          v2 = take 1 v1 @
               map2 (\<lambda>v k. fl_add v (fl_mul (Fin y_cond) (fl_log (Fin (real k * mu)))))
                    (drop 1 v1) (drop 1 x)
      in case v2 of
           [] \<Rightarrow> Inl IndexError
         | _ # rest \<Rightarrow>
             (let v3 = NInf # rest;
                  v4 = map (\<lambda>v. fl_exp (fl_sub v (py_max NInf rest))) v3
              in Inr (map (\<lambda>v. fl_div v (py_sum v4)) v4)))"


subsection \<open>Figures\<close>

text \<open>
  A figure is the list of its axes in subplot order, and an axes is the list of what
  was drawn on it, in call order. What is kept of each plotting call is its data; a
  label or title is kept when a computed number is formatted into it, as its kind and
  those numbers. Fixed text, colours of single lines, axis limits and layout are left
  out, and the plotting calls are taken to succeed.
\<close>

datatype artist =
    Stem "real list" "real list" "fl list"
  | PColorMesh "real list" "real list" "fl list list"
  | FillBetween "fl list" "fl list"
  | Bar "real list" "fl list"
  | Plot "fl list" "fl list"
  | Plot3D "fl list" "fl list" "fl list"
  | AxLine "real \<times> real" "real \<times> real"
  | AxVLine real
  | Hist "fl list"
  | HLines "real list" "fl list" "fl list" "string list"
  | Label string "fl list"

datatype figure = Figure "artist list list"

text \<open>What a call returns: each of the three functions ends in \<open>return fig\<close>.\<close>

datatype pyobj = Fig figure | Arr "fl list" | Arr2 "fl list list" | Tup "pyobj list" | PyNone

fun parts :: "pyobj \<Rightarrow> pyobj list" where
  "parts (Tup vs) = concat (map parts vs)"
| "parts v = [v]"

fun is_array :: "pyobj \<Rightarrow> bool" where
  "is_array (Arr v) = True"
| "is_array (Arr2 v) = True"
| "is_array v = False"

definition returned :: "error + pyobj \<Rightarrow> pyobj list" where
  "returned r = (case r of Inl e \<Rightarrow> [] | Inr v \<Rightarrow> parts v)"

definition harvest :: "nat \<Rightarrow> real \<Rightarrow> real \<Rightarrow> real option \<Rightarrow> error + pyobj" where
  "harvest n p mu y_cond =
     (case harvest_y n p mu y_cond of
        Inl e \<Rightarrow> Inl e
      | Inr y \<Rightarrow>
          (let x = harvest_x n;
               X_in = map (\<lambda>l. map real x) y;
               Y_in = map (\<lambda>l. map (\<lambda>k. l) x) y;
               pXY = harvest_pXY n p mu y;
               pY = harvest_pY pXY
           in case y_cond of
                None \<Rightarrow>
                  Inr (Fig (Figure
                    [[Stem (concat X_in) (concat Y_in) (concat pXY)],
                     [PColorMesh (map real x) y pXY],
                     [FillBetween (map Fin y) pY]]))
              | Some yc \<Rightarrow>
                  (case harvest_pX_Y n p mu yc of
                     Inl e \<Rightarrow> Inl e
                   | Inr pX_Y \<Rightarrow>
                       Inr (Fig (Figure
                         [[Stem (concat X_in) (concat Y_in) (concat pXY),
                           Plot3D [Fin 0, Fin (real n)] [Fin yc, Fin yc] [Fin 0, Fin 0]],
                          [PColorMesh (map real x) y pXY, AxLine (0, yc) (real n, yc)],
                          [FillBetween (map Fin y) pY],
                          [Bar (map real x) pX_Y, Label ''ylabel'' [Fin yc]]])))))"

section \<open>The normal distribution of scipy.stats\<close>

text \<open>
  \<open>stats.norm\<close> shifts and scales the standard normal distribution: \<open>ppf(q, loc, scale)\<close>
  is \<open>loc + scale * ppf(q)\<close>, and \<open>cdf(x, loc, scale)\<close> and \<open>pdf(x, loc, scale)\<close> go
  through \<open>(x - loc) / scale\<close>. The standard normal distribution function and its
  quantile function have no closed form; they are the parameters \<open>Phi\<close> and
  \<open>Phi_inv\<close>. A scale that is not positive gives not-a-number; the quantiles of 0
  and 1 are the infinite ends of the support.
\<close>

definition norm_ppf :: "(real \<Rightarrow> real) \<Rightarrow> real \<Rightarrow> fl \<Rightarrow> fl \<Rightarrow> fl" where
  "norm_ppf Phi_inv q loc scale =
     (if \<not> fl_gt scale (Fin 0) then NaN
      else if 0 < q \<and> q < 1 then fl_add (fl_mul (Fin (Phi_inv q)) scale) loc
      else if q = 0 then fl_add (fl_mul NInf scale) loc
      else if q = 1 then fl_add (fl_mul PInf scale) loc
      else NaN)"



text \<open>
  \<open>stats.norm.rvs(loc, scale, size)\<close> scales and shifts standard normal draws. The
  draws of the generator are the sequence \<open>z\<close>; a call takes the next \<open>cnt\<close> of them,
  from position \<open>start\<close>.
\<close>

definition norm_rvs :: "(nat \<Rightarrow> real) \<Rightarrow> real \<Rightarrow> real \<Rightarrow> nat \<Rightarrow> nat \<Rightarrow> fl list" where
  "norm_rvs z loc scale start cnt = map (\<lambda>i. Fin (loc + scale * z i)) [start..<start + cnt]"

definition np_reshape :: "nat \<Rightarrow> nat \<Rightarrow> 'a list \<Rightarrow> 'a list list" where
  "np_reshape rows cols as = map (\<lambda>i. take cols (drop (i * cols) as)) [0..<rows]"

text \<open>
  \<open>np.var\<close> is the mean of the squared deviations from the mean, with the divisor
  \<open>N - ddof\<close>; \<open>ddof\<close> is 0 unless the caller passes it.
\<close>

definition np_var :: "nat \<Rightarrow> fl list \<Rightarrow> fl" where
  "np_var ddof as =
     (let m = np_mean as;
          d = map (\<lambda>v. fl_sub v m) as
      in fl_div (py_sum (map (\<lambda>v. fl_mul v v) d)) (Fin (real (length as - ddof))))"


section \<open>lab3: skattningar\<close>

definition n_sim :: nat where
  "n_sim = 1000"

definition n_plot :: nat where
  "n_plot = 100"

text \<open>The two samples \<open>x\<close> and \<open>y\<close>: \<open>n_sim\<close> rows of \<open>n[0]\<close> and of \<open>n[1]\<close> draws.\<close>

definition skatt_x :: "(nat \<Rightarrow> real) \<Rightarrow> real \<Rightarrow> real \<Rightarrow> nat \<times> nat \<Rightarrow> fl list list" where
  "skatt_x z mu sigma n =
     np_reshape n_sim (fst n) (norm_rvs z mu sigma 0 (fst n * n_sim))"

definition skatt_y :: "(nat \<Rightarrow> real) \<Rightarrow> real \<Rightarrow> real \<Rightarrow> nat \<times> nat \<Rightarrow> fl list list" where
  "skatt_y z mu sigma n =
     np_reshape n_sim (snd n) (norm_rvs z mu sigma (fst n * n_sim) (snd n * n_sim))"

text \<open>
  The interval half-width \<open>w\<close> for one sample size, the intervals \<open>CI\<close> around the
  row means, the indicator \<open>I\<close> (the product of the signs of the two bounds minus
  \<open>mu\<close> is 1) and the share \<open>p\<close> of intervals it marks.
\<close>

definition konf_w :: "(real \<Rightarrow> real) \<Rightarrow> real \<Rightarrow> nat \<Rightarrow> fl" where
  "konf_w Phi_inv sigma nj =
     fl_div (fl_mul (norm_ppf Phi_inv (975 / 1000) (Fin 0) (Fin 1)) (Fin sigma))
            (fl_sqrt (Fin (real nj)))"

definition konf_CI :: "fl \<Rightarrow> fl list \<Rightarrow> (fl \<times> fl) list" where
  "konf_CI w mu_est = map (\<lambda>m. (fl_sub m w, fl_add m w)) mu_est"

definition konf_I :: "real \<Rightarrow> (fl \<times> fl) list \<Rightarrow> bool list" where
  "konf_I mu CI =
     map (\<lambda>(lo, hi). fl_eq (np_prod [fl_sign (fl_sub lo (Fin mu)),
                                       fl_sign (fl_sub hi (Fin mu))]) (Fin 1)) CI"

definition konf_p :: "bool list \<Rightarrow> fl" where
  "konf_p I = np_mean (map (\<lambda>b. Fin (if b then 1 else 0)) I)"

definition skattningar ::
  "(nat \<Rightarrow> real) \<Rightarrow> (real \<Rightarrow> real) \<Rightarrow> real \<Rightarrow> real \<Rightarrow> nat \<times> nat \<Rightarrow> string \<Rightarrow> error + pyobj" where
  "skattningar z Phi_inv mu sigma n alternativ =
     (let x = skatt_x z mu sigma n;
          y = skatt_y z mu sigma n
      in if alternativ = ''muskatt'' then
           Inr (Fig (Figure
             [[Hist (map np_mean x), AxVLine mu],
              [Hist (map np_mean y), AxVLine mu]]))
         else if alternativ = ''sigmaskatt'' then
           Inr (Fig (Figure
             [[Hist (map (np_var 0) x), AxVLine (sigma ^ 2)],
              [Hist (map (np_var 0) y), AxVLine (sigma ^ 2)]]))
         else if alternativ = ''konfint'' then
           (let CI_x = konf_CI (konf_w Phi_inv sigma (fst n)) (map np_mean x);
                CI_y = konf_CI (konf_w Phi_inv sigma (snd n)) (map np_mean y);
                I_x = konf_I mu CI_x;
                I_y = konf_I mu CI_y;
                p = [konf_p I_x, konf_p I_y];
                col_x = map (\<lambda>i. if i then ''r'' else ''b'') I_x;
                col_y = map (\<lambda>i. if i then ''r'' else ''b'') I_y
            in Inr (Fig (Figure
                 [[AxVLine mu, Label ''xlabel'' [p ! 0],
                   HLines (map real [0..<n_plot]) (map fst (take n_plot CI_x))
                          (map snd (take n_plot CI_x)) (take n_plot col_x)],
                  [AxVLine mu, Label ''xlabel'' [p ! 1],
                   HLines (map real [0..<n_plot]) (map fst (take n_plot CI_y))
                          (map snd (take n_plot CI_y)) (take n_plot col_y)]])))
         else
           Inl (ValueError
             (''The 'alternativ' parameters must be one of '' @
              '''muskatt', 'sigmaskatt' or 'konfint'; not '' @ alternativ)))"

section \<open>lab3: styrkefkn\<close>




section \<open>Notions used in the proofs\<close>



text \<open>
  The log-domain entry of the conditional vector at \<open>k \<ge> 1\<close>, the weight it stands for,
  and the weight of the direct product of the two mass functions.
\<close>

definition cond_log :: "nat \<Rightarrow> real \<Rightarrow> real \<Rightarrow> real \<Rightarrow> nat \<Rightarrow> fl" where
  "cond_log n p mu y_cond k =
     fl_add (fl_sub (fl_log (binom_pmf k n p)) (Fin (real k * mu)))
            (fl_mul (Fin y_cond) (fl_log (Fin (real k * mu))))"



text \<open>
  Row \<open>i\<close> of a sample as real numbers, the sample mean, the variance estimators with
  the divisors \<open>n\<close> and \<open>n - 1\<close>, the two-sided interval around the sample mean for a
  known standard deviation (the quantile is that of 0.975), and what it is for both
  bounds of an interval to lie strictly on the same side of \<open>mu\<close>.
\<close>

definition sample_row :: "(nat \<Rightarrow> real) \<Rightarrow> real \<Rightarrow> real \<Rightarrow> nat \<Rightarrow> nat \<Rightarrow> nat \<Rightarrow> real list" where
  "sample_row z mu sigma start nj i = map (\<lambda>j. mu + sigma * z j) [start + i * nj..<start + i * nj + nj]"

definition mean_r :: "real list \<Rightarrow> real" where
  "mean_r as = sum_list as / real (length as)"



definition ci_known_sigma :: "(real \<Rightarrow> real) \<Rightarrow> real \<Rightarrow> real list \<Rightarrow> real \<times> real" where
  "ci_known_sigma Phi_inv sigma as =
     (mean_r as - Phi_inv (975 / 1000) * sigma / sqrt (real (length as)),
      mean_r as + Phi_inv (975 / 1000) * sigma / sqrt (real (length as)))"

definition strictly_outside :: "real \<Rightarrow> real \<times> real \<Rightarrow> bool" where
  "strictly_outside mu ci \<longleftrightarrow> (mu < fst ci \<and> mu < snd ci) \<or> (fst ci < mu \<and> snd ci < mu)"



definition Ymax_bound :: "nat \<Rightarrow> real \<Rightarrow> real \<Rightarrow> real option \<Rightarrow> real" where
  "Ymax_bound n p mu y_cond =
     (let b = real n * p * mu + 4 * sqrt (real n * p * mu * (1 + mu * (1 - p)))
      in case y_cond of None \<Rightarrow> b | Some yc \<Rightarrow> max b yc)"

section \<open>Sums, maxima and the log-domain normalisation\<close>

lemma py_sum_Fin_aux: "foldl fl_add (Fin a) (map Fin rs) = Fin (a + sum_list rs)"
  by (induction rs arbitrary: a) (simp_all add: add.assoc)

lemma py_sum_Fin: "py_sum (map Fin rs) = Fin (sum_list rs)"
  by (simp add: py_sum_def py_sum_Fin_aux)





section \<open>harvest: the conditional vector\<close>

lemma take_drop_map2:
  "take 1 (map f (a # xs)) @ map2 g (drop 1 (map f (a # xs))) (drop 1 (a # xs))
     = f a # map (\<lambda>k. g (f k) k) xs"
  by (simp add: zip_map1 zip_same_conv_map comp_def)

lemma harvest_pX_Y_unfold:
  "harvest_pX_Y n p mu yc =
     Inr (let v3 = NInf # map (cond_log n p mu yc) [1..<n + 1];
              v4 = map (\<lambda>v. fl_exp (fl_sub v (py_max NInf (map (cond_log n p mu yc) [1..<n + 1])))) v3
          in map (\<lambda>v. fl_div v (py_sum v4)) v4)"
proof -
  have x: "harvest_x n = 0 # [1..<n + 1]"
    by (simp add: harvest_x_def upt_conv_Cons)
  show ?thesis
    unfolding harvest_pX_Y_def x Let_def take_drop_map2 cond_log_def
    by (simp only: list.case)
qed











section \<open>harvest: the log domain against the direct product\<close>









section \<open>skattningar: samples, means and variances\<close>

lemma np_reshape_row:
  assumes "i < rows"
  shows "np_reshape rows cols (map f [s..<s + cols * rows]) ! i
           = map f [s + i * cols..<s + i * cols + cols]"
proof -
  have "Suc i * cols \<le> rows * cols" using assms by (intro mult_le_mono1) simp
  then have le: "s + i * cols + cols \<le> s + cols * rows" by (simp add: mult.commute)
  have "take cols (drop (i * cols) [s..<s + cols * rows]) = [s + i * cols..<s + i * cols + cols]"
    using le by (simp add: drop_upt take_upt)
  then show ?thesis using assms
    by (simp add: np_reshape_def take_map drop_map)
qed

lemma skatt_x_row:
  "i < n_sim \<Longrightarrow> skatt_x z mu sigma n ! i = map Fin (sample_row z mu sigma 0 (fst n) i)"
  unfolding skatt_x_def norm_rvs_def sample_row_def
  using np_reshape_row [where i = i and rows = n_sim and f = "\<lambda>i. Fin (mu + sigma * z i)"
                           and s = 0 and cols = "fst n"]
  by (simp add: comp_def)

lemma skatt_y_row:
  "i < n_sim \<Longrightarrow>
     skatt_y z mu sigma n ! i = map Fin (sample_row z mu sigma (fst n * n_sim) (snd n) i)"
  unfolding skatt_y_def norm_rvs_def sample_row_def
  using np_reshape_row [where i = i and rows = n_sim and f = "\<lambda>i. Fin (mu + sigma * z i)"
                           and s = "fst n * n_sim" and cols = "snd n"]
  by (simp add: comp_def)

lemma skatt_x_rows:
  "skatt_x z mu sigma n = map (\<lambda>i. map Fin (sample_row z mu sigma 0 (fst n) i)) [0..<n_sim]"
proof (rule nth_equalityI)
  show "length (skatt_x z mu sigma n)
          = length (map (\<lambda>i. map Fin (sample_row z mu sigma 0 (fst n) i)) [0..<n_sim])"
    by (simp add: skatt_x_def np_reshape_def)
next
  fix i assume "i < length (skatt_x z mu sigma n)"
  then have "i < n_sim" by (simp add: skatt_x_def np_reshape_def)
  then show "skatt_x z mu sigma n ! i
               = map (\<lambda>i. map Fin (sample_row z mu sigma 0 (fst n) i)) [0..<n_sim] ! i"
    by (simp add: skatt_x_row)
qed

lemma skatt_y_rows:
  "skatt_y z mu sigma n =
     map (\<lambda>i. map Fin (sample_row z mu sigma (fst n * n_sim) (snd n) i)) [0..<n_sim]"
proof (rule nth_equalityI)
  show "length (skatt_y z mu sigma n)
          = length (map (\<lambda>i. map Fin (sample_row z mu sigma (fst n * n_sim) (snd n) i))
                        [0..<n_sim])"
    by (simp add: skatt_y_def np_reshape_def)
next
  fix i assume "i < length (skatt_y z mu sigma n)"
  then have "i < n_sim" by (simp add: skatt_y_def np_reshape_def)
  then show "skatt_y z mu sigma n ! i
               = map (\<lambda>i. map Fin (sample_row z mu sigma (fst n * n_sim) (snd n) i))
                     [0..<n_sim] ! i"
    by (simp add: skatt_y_row)
qed

lemma length_sample_row: "length (sample_row z mu sigma start nj i) = nj"
  by (simp add: sample_row_def)

lemma np_mean_Fin: "as \<noteq> [] \<Longrightarrow> np_mean (map Fin as) = Fin (mean_r as)"
  by (simp add: np_mean_def py_sum_Fin mean_r_def)


section \<open>skattningar: the confidence intervals\<close>

lemma konf_w_val:
  "0 < nj \<Longrightarrow> konf_w Phi_inv sigma nj = Fin (Phi_inv (975 / 1000) * sigma / sqrt (real nj))"
  by (simp add: konf_w_def norm_ppf_def)

lemma konf_CI_rows:
  assumes "\<forall>as\<in>set rows. length as = nj" "0 < nj"
  shows "konf_CI (konf_w Phi_inv sigma nj) (map np_mean (map (map Fin) rows))
           = map (\<lambda>as. (Fin (fst (ci_known_sigma Phi_inv sigma as)),
                         Fin (snd (ci_known_sigma Phi_inv sigma as)))) rows"
proof -
  have "\<And>as. as \<in> set rows \<Longrightarrow> np_mean (map Fin as) = Fin (mean_r as) \<and> length as = nj"
    using assms by (auto intro: np_mean_Fin)
  then show ?thesis
    unfolding konf_CI_def konf_w_val [OF assms(2)]
    by (simp add: ci_known_sigma_def fl_sub_def)
qed

lemma sgn_prod_one:
  "sgn (a::real) * sgn b = 1 \<longleftrightarrow> (0 < a \<and> 0 < b) \<or> (a < 0 \<and> b < 0)"
  by (auto simp add: sgn_if)

lemma konf_I_rows:
  "konf_I mu (map (\<lambda>as. (Fin (fst (c as)), Fin (snd (c as)))) rows)
     = map (\<lambda>as. strictly_outside mu (c as)) rows"
  by (auto simp add: konf_I_def np_prod_def fl_sub_def sgn_prod_one strictly_outside_def)

lemma sum_list_indicator:
  "(\<Sum>b\<leftarrow>bs. if b then 1 else 0) = real (length (filter id bs))"
  by (induction bs) simp_all

lemma konf_p_val:
  "bs \<noteq> [] \<Longrightarrow> konf_p bs = Fin (real (length (filter id bs)) / real (length bs))"
proof -
  assume ne: "bs \<noteq> []"
  have "map (\<lambda>b. Fin (if b then 1 else 0)) bs = map Fin (map (\<lambda>b. if b then 1 else 0) bs)"
    by simp
  then show ?thesis using ne
    by (simp add: konf_p_def np_mean_def py_sum_Fin sum_list_indicator del: map_map)
qed

lemma konf_p_rows:
  "rows \<noteq> [] \<Longrightarrow>
     konf_p (map P rows) = Fin (real (length (filter P rows)) / real (length rows))"
  by (simp add: konf_p_val filter_map comp_def)



lemma n_sim_pos: "0 < n_sim"
  by (simp add: n_sim_def)

text \<open>
  Claim C6. For positive sample sizes, the mode \<open>'konfint'\<close> builds for each of the
  \<open>n_sim = 1000\<close> rows of each sample the interval of the row mean plus and minus
  \<open>ppf(0.975) * sigma / sqrt(n_j)\<close>, marks an interval when both its bounds lie
  strictly on the same side of \<open>mu\<close>, and reports for each sample the number of marked
  intervals divided by 1000; the first \<open>n_plot = 100\<close> intervals are drawn, red when
  marked. When the half-width is not negative, an interval is marked exactly when
  \<open>mu\<close> is not in it.
\<close>

theorem konfint_miss_rate:
  assumes "0 < fst n" "0 < snd n"
  shows "skattningar z Phi_inv mu sigma n ''konfint'' =
           (let rx = map (sample_row z mu sigma 0 (fst n)) [0..<n_sim];
                ry = map (sample_row z mu sigma (fst n * n_sim) (snd n)) [0..<n_sim];
                ci = ci_known_sigma Phi_inv sigma;
                panel = (\<lambda>rows.
                  [AxVLine mu,
                   Label ''xlabel''
                     [Fin (real (length (filter (\<lambda>as. strictly_outside mu (ci as)) rows))
                           / real n_sim)],
                   HLines (map real [0..<n_plot])
                          (map (\<lambda>as. Fin (fst (ci as))) (take n_plot rows))
                          (map (\<lambda>as. Fin (snd (ci as))) (take n_plot rows))
                          (map (\<lambda>as. if strictly_outside mu (ci as) then ''r'' else ''b'')
                               (take n_plot rows))])
            in Inr (Fig (Figure [panel rx, panel ry]))) \<and>
         (0 \<le> Phi_inv (975 / 1000) * sigma \<longrightarrow>
            (strictly_outside mu (ci_known_sigma Phi_inv sigma as) \<longleftrightarrow>
               mu \<notin> {fst (ci_known_sigma Phi_inv sigma as)..snd (ci_known_sigma Phi_inv sigma as)}))"
proof -
  define rx where "rx = map (sample_row z mu sigma 0 (fst n)) [0..<n_sim]"
  define ry where "ry = map (sample_row z mu sigma (fst n * n_sim) (snd n)) [0..<n_sim]"
  have x: "skatt_x z mu sigma n = map (map Fin) rx"
    by (simp add: skatt_x_rows rx_def comp_def)
  have y: "skatt_y z mu sigma n = map (map Fin) ry"
    by (simp add: skatt_y_rows ry_def comp_def)
  have lx: "length rx = n_sim" and ly: "length ry = n_sim"
    by (simp_all add: rx_def ry_def)
  have nex: "rx \<noteq> []" and ney: "ry \<noteq> []"
    using lx ly n_sim_pos by auto
  have cx: "konf_CI (konf_w Phi_inv sigma (fst n)) (map np_mean (map (map Fin) rx))
              = map (\<lambda>as. (Fin (fst (ci_known_sigma Phi_inv sigma as)),
                            Fin (snd (ci_known_sigma Phi_inv sigma as)))) rx"
    by (rule konf_CI_rows) (simp_all add: rx_def length_sample_row assms)
  have cy: "konf_CI (konf_w Phi_inv sigma (snd n)) (map np_mean (map (map Fin) ry))
              = map (\<lambda>as. (Fin (fst (ci_known_sigma Phi_inv sigma as)),
                            Fin (snd (ci_known_sigma Phi_inv sigma as)))) ry"
    by (rule konf_CI_rows) (simp_all add: ry_def length_sample_row assms)
  have fig: "skattningar z Phi_inv mu sigma n ''konfint'' =
           (let ci = ci_known_sigma Phi_inv sigma;
                panel = (\<lambda>rows.
                  [AxVLine mu,
                   Label ''xlabel''
                     [Fin (real (length (filter (\<lambda>as. strictly_outside mu (ci as)) rows))
                           / real n_sim)],
                   HLines (map real [0..<n_plot])
                          (map (\<lambda>as. Fin (fst (ci as))) (take n_plot rows))
                          (map (\<lambda>as. Fin (snd (ci as))) (take n_plot rows))
                          (map (\<lambda>as. if strictly_outside mu (ci as) then ''r'' else ''b'')
                               (take n_plot rows))])
            in Inr (Fig (Figure [panel rx, panel ry])))"
    unfolding skattningar_def Let_def x y cx cy konf_I_rows
      konf_p_rows [OF nex] konf_p_rows [OF ney] lx ly
    by (simp add: take_map comp_def)
  have side: "strictly_outside mu (ci_known_sigma Phi_inv sigma as) \<longleftrightarrow>
               mu \<notin> {fst (ci_known_sigma Phi_inv sigma as)..snd (ci_known_sigma Phi_inv sigma as)}"
    if "0 \<le> Phi_inv (975 / 1000) * sigma"
  proof -
    have "0 \<le> Phi_inv (975 / 1000) * sigma / sqrt (real (length as))"
      using that by simp
    then show ?thesis
      by (auto simp add: strictly_outside_def ci_known_sigma_def)
  qed
  from fig side show ?thesis unfolding rx_def ry_def Let_def by blast
qed

text \<open>C6 at the sample sizes 2 and 3, \<open>mu = 0\<close>, \<open>sigma = 1\<close>.\<close>

theorem konfint_miss_rate_witness:
  "(0::nat) < fst (2, 3) \<and> (0::nat) < snd (2, 3::nat) \<and>
   skattningar (\<lambda>i. real i) (\<lambda>q. 2) 0 1 (2, 3) ''konfint'' =
           (let rx = map (sample_row (\<lambda>i. real i) 0 1 0 (fst (2, 3))) [0..<n_sim];
                ry = map (sample_row (\<lambda>i. real i) 0 1 (fst (2, 3) * n_sim) (snd (2, 3))) [0..<n_sim];
                ci = ci_known_sigma (\<lambda>q. 2) 1;
                panel = (\<lambda>rows.
                  [AxVLine 0,
                   Label ''xlabel''
                     [Fin (real (length (filter (\<lambda>as. strictly_outside 0 (ci as)) rows))
                           / real n_sim)],
                   HLines (map real [0..<n_plot])
                          (map (\<lambda>as. Fin (fst (ci as))) (take n_plot rows))
                          (map (\<lambda>as. Fin (snd (ci as))) (take n_plot rows))
                          (map (\<lambda>as. if strictly_outside 0 (ci as) then ''r'' else ''b'')
                               (take n_plot rows))])
            in Inr (Fig (Figure [panel rx, panel ry]))) \<and>
   (strictly_outside 0 (ci_known_sigma (\<lambda>q. 2) 1 [0, 2]) \<longleftrightarrow>
      0 \<notin> {fst (ci_known_sigma (\<lambda>q. 2) 1 [0, 2])..snd (ci_known_sigma (\<lambda>q. 2) 1 [0, 2])})"
  using konfint_miss_rate
    [where n = "(2, 3)" and z = "\<lambda>i. real i" and Phi_inv = "\<lambda>q. 2" and mu = 0 and sigma = 1
       and as = "[0, 2]"]
  by simp

section \<open>styrkefkn: the power at the null value\<close>









section \<open>Validation of the mode and of the direction\<close>




section \<open>Moments of the Poisson and of the binomial distribution\<close>













section \<open>The mass below the cut-off\<close>






section \<open>harvest: the joint table, the marginal vector and the figure\<close>

lemma tot_V_nonneg:
  assumes "0 \<le> p" "p \<le> 1" "0 \<le> mu"
  shows "0 \<le> real n * p * mu * (1 + mu * (1 - p))"
proof -
  have "0 \<le> mu * (1 - p)" using assms by simp
  then have "0 \<le> 1 + mu * (1 - p)" by linarith
  moreover have "0 \<le> real n * p * mu" using assms by simp
  ultimately show ?thesis by (rule mult_nonneg_nonneg [rotated])
qed

lemma harvest_Ymax_val:
  assumes "0 \<le> p" "p \<le> 1" "0 \<le> mu"
  shows "harvest_Ymax n p mu y_cond = Fin (Ymax_bound n p mu y_cond)"
  using tot_V_nonneg [OF assms, of n]
  by (cases y_cond) (simp_all add: harvest_Ymax_def Ymax_bound_def py_max_def Let_def max_def)


lemma harvest_y_val:
  assumes "0 \<le> p" "p \<le> 1" "0 \<le> mu"
  shows "harvest_y n p mu y_cond = Inr (map real [0..<nat \<lceil>Ymax_bound n p mu y_cond + 1\<rceil>])"
  by (simp add: harvest_y_def harvest_Ymax_val [OF assms])















text \<open>
  Claim C8, as amended. For a positive \<open>n\<close>, \<open>0 \<le> p \<le> 1\<close> and \<open>mu > 0\<close>, \<open>harvest\<close>
  returns one object, the figure, and no array: the joint table is the data of the stem
  plot and of the colour mesh, the marginal vector that of the filled curve and, when
  \<open>y_cond\<close> is given, the conditional vector that of the bar chart.
\<close>

theorem harvest_returns_figure:
  assumes "1 \<le> n" "0 \<le> p" "p \<le> 1" "0 < mu"
  shows "(\<exists>y. harvest_y n p mu None = Inr y \<and>
            harvest n p mu None =
              Inr (Fig (Figure
                [[Stem (concat (map (\<lambda>l. map real (harvest_x n)) y))
                       (concat (map (\<lambda>l. map (\<lambda>k. l) (harvest_x n)) y))
                       (concat (harvest_pXY n p mu y))],
                 [PColorMesh (map real (harvest_x n)) y (harvest_pXY n p mu y)],
                 [FillBetween (map Fin y) (harvest_pY (harvest_pXY n p mu y))]]))) \<and>
         (\<exists>y c. harvest_y n p mu (Some yc) = Inr y \<and> harvest_pX_Y n p mu yc = Inr c \<and>
            harvest n p mu (Some yc) =
              Inr (Fig (Figure
                [[Stem (concat (map (\<lambda>l. map real (harvest_x n)) y))
                       (concat (map (\<lambda>l. map (\<lambda>k. l) (harvest_x n)) y))
                       (concat (harvest_pXY n p mu y)),
                  Plot3D [Fin 0, Fin (real n)] [Fin yc, Fin yc] [Fin 0, Fin 0]],
                 [PColorMesh (map real (harvest_x n)) y (harvest_pXY n p mu y),
                  AxLine (0, yc) (real n, yc)],
                 [FillBetween (map Fin y) (harvest_pY (harvest_pXY n p mu y))],
                 [Bar (map real (harvest_x n)) c, Label ''ylabel'' [Fin yc]]]))) \<and>
         \<not> list_ex is_array (returned (harvest n p mu y_cond))"
proof -
  have mu0: "0 \<le> mu" using assms(4) by simp
  note y = harvest_y_val [OF assms(2,3) mu0, of n]
  have none: "\<exists>y. harvest_y n p mu None = Inr y \<and>
            harvest n p mu None =
              Inr (Fig (Figure
                [[Stem (concat (map (\<lambda>l. map real (harvest_x n)) y))
                       (concat (map (\<lambda>l. map (\<lambda>k. l) (harvest_x n)) y))
                       (concat (harvest_pXY n p mu y))],
                 [PColorMesh (map real (harvest_x n)) y (harvest_pXY n p mu y)],
                 [FillBetween (map Fin y) (harvest_pY (harvest_pXY n p mu y))]]))"
    unfolding harvest_def y Let_def by simp
  have some: "\<exists>y c. harvest_y n p mu (Some v) = Inr y \<and> harvest_pX_Y n p mu v = Inr c \<and>
            harvest n p mu (Some v) =
              Inr (Fig (Figure
                [[Stem (concat (map (\<lambda>l. map real (harvest_x n)) y))
                       (concat (map (\<lambda>l. map (\<lambda>k. l) (harvest_x n)) y))
                       (concat (harvest_pXY n p mu y)),
                  Plot3D [Fin 0, Fin (real n)] [Fin v, Fin v] [Fin 0, Fin 0]],
                 [PColorMesh (map real (harvest_x n)) y (harvest_pXY n p mu y),
                  AxLine (0, v) (real n, v)],
                 [FillBetween (map Fin y) (harvest_pY (harvest_pXY n p mu y))],
                 [Bar (map real (harvest_x n)) c, Label ''ylabel'' [Fin v]]]))" for v
  proof -
    obtain c where c: "harvest_pX_Y n p mu v = Inr c"
      using harvest_pX_Y_unfold [of n p mu v] by simp
    have "harvest n p mu (Some v) =
              Inr (Fig (Figure
                [[Stem (concat (map (\<lambda>l. map real (harvest_x n))
                                    (map real [0..<nat \<lceil>Ymax_bound n p mu (Some v) + 1\<rceil>])))
                       (concat (map (\<lambda>l. map (\<lambda>k. l) (harvest_x n))
                                    (map real [0..<nat \<lceil>Ymax_bound n p mu (Some v) + 1\<rceil>])))
                       (concat (harvest_pXY n p mu
                                    (map real [0..<nat \<lceil>Ymax_bound n p mu (Some v) + 1\<rceil>]))),
                  Plot3D [Fin 0, Fin (real n)] [Fin v, Fin v] [Fin 0, Fin 0]],
                 [PColorMesh (map real (harvest_x n))
                     (map real [0..<nat \<lceil>Ymax_bound n p mu (Some v) + 1\<rceil>])
                     (harvest_pXY n p mu (map real [0..<nat \<lceil>Ymax_bound n p mu (Some v) + 1\<rceil>])),
                  AxLine (0, v) (real n, v)],
                 [FillBetween (map Fin (map real [0..<nat \<lceil>Ymax_bound n p mu (Some v) + 1\<rceil>]))
                     (harvest_pY (harvest_pXY n p mu
                        (map real [0..<nat \<lceil>Ymax_bound n p mu (Some v) + 1\<rceil>])))],
                 [Bar (map real (harvest_x n)) c, Label ''ylabel'' [Fin v]]]))"
      by (simp add: harvest_def y Let_def c)
    with y [of "Some v"] c show ?thesis by blast
  qed
  have fig: "\<exists>f. harvest n p mu y_cond = Inr (Fig f)"
  proof (cases y_cond)
    case None
    then show ?thesis using none by blast
  next
    case (Some v)
    then show ?thesis using some [of v] by blast
  qed
  then have "\<not> list_ex is_array (returned (harvest n p mu y_cond))"
    by (auto simp add: returned_def)
  with none some [of yc] show ?thesis by blast
qed

text \<open>C8 for one seed, \<open>p = 1/2\<close>, \<open>mu = 1\<close>, \<open>y_cond = 2\<close>.\<close>

theorem harvest_returns_figure_witness:
  "(1::nat) \<le> 1 \<and> (0::real) \<le> 1 / 2 \<and> (1::real) / 2 \<le> 1 \<and> (0::real) < 1 \<and>
   \<not> list_ex is_array (returned (harvest 1 (1 / 2) 1 (Some 2)))"
  using harvest_returns_figure [of 1 "1 / 2" 1 2 "Some 2"] by simp

text \<open>
  Claim C8 as stated has the joint table and the marginal vector in the output next to
  the figure. \<open>harvest(1, 0, 1)\<close> returns the figure alone.
\<close>

theorem harvest_returns_arrays_counterexample:
  "harvest 1 0 1 None =
     Inr (Fig (Figure [[Stem [0, 1] [0, 0] [Fin 1, Fin 0]],
                       [PColorMesh [0, 1] [0] [[Fin 1, Fin 0]]],
                       [FillBetween [Fin 0] [Fin 1]]])) \<and>
   \<not> list_ex is_array (returned (harvest 1 0 1 None))"
  by (simp add: harvest_def harvest_y_def harvest_Ymax_def harvest_x_def harvest_pXY_def
                harvest_pY_def binom_pmf_def poisson_pmf_def py_sum_def returned_def Let_def)

end
